theory Spec2Isabelle
  imports Main "HOL-Library.Word"
begin

unbundle bit_operations_syntax

section \<open>Constants of the firmware\<close>

text \<open>
  The firmware (\<^verbatim>\<open>src/unnamed/part_000\<close>) is an Arduino sketch for an ATtiny412. All its
  variables and the port registers are 8 bits wide.
\<close>

type_synonym u8 = "8 word"

definition FW_VERSION :: u8 where
  "FW_VERSION = 0x10"

definition PORTA_PIN_RESET :: u8 where
  "PORTA_PIN_RESET = push_bit 3 1"

definition PORTA_PIN_ALERT :: u8 where
  "PORTA_PIN_ALERT = push_bit 6 1"

definition PORTA_PIN_POWERCYCLE :: u8 where
  "PORTA_PIN_POWERCYCLE = push_bit 7 1"

definition REG_VERSION :: u8 where
  "REG_VERSION = 0"

definition REG_CONFIG :: u8 where
  "REG_CONFIG = 1"

definition REG_WDT :: u8 where
  "REG_WDT = 2"

definition CONFIG_ENABLE_RESET :: u8 where
  "CONFIG_ENABLE_RESET = push_bit 0 1"

definition CONFIG_ENABLE_POWERCYCLE :: u8 where
  "CONFIG_ENABLE_POWERCYCLE = push_bit 1 1"

definition CONFIG_ENABLE_ALERT :: u8 where
  "CONFIG_ENABLE_ALERT = push_bit 2 1"

section \<open>State\<close>

text \<open>
  The calls that drive an output line, and \<^verbatim>\<open>delay\<close>, are logged in the order the
  firmware makes them: a pulse is an assert, a delay and a deassert in the log.
\<close>

datatype pin_event =
  Assert_reset | Deassert_reset
  | Assert_powercycle | Deassert_powercycle
  | Assert_alert | Deassert_alert
  | Delay_ms nat

text \<open>
  The four globals of the sketch, the two registers of port A it writes, the global
  interrupt flag that \<^verbatim>\<open>cli\<close> and \<^verbatim>\<open>sei\<close> switch, the receive buffer and the
  transmitted bytes of the \<^verbatim>\<open>Wire\<close> object, and the log of output-line calls.
\<close>

record wdt_state =
  wdt_counter :: u8
  wdt_expirations :: u8
  register_pointer :: u8
  config_reg :: u8
  PORTA_OUT :: u8
  PORTA_DIR :: u8
  sreg_i :: bool
  wire_rx :: "u8 list"
  wire_tx :: "u8 list"
  pin_log :: "pin_event list"

section \<open>Output lines\<close>

definition assert_reset :: "wdt_state \<Rightarrow> wdt_state" where
  "assert_reset s =
     s\<lparr>PORTA_OUT := PORTA_OUT s OR PORTA_PIN_RESET,
       PORTA_DIR := PORTA_DIR s OR PORTA_PIN_RESET,
       pin_log := pin_log s @ [Assert_reset]\<rparr>"

definition deassert_reset :: "wdt_state \<Rightarrow> wdt_state" where
  "deassert_reset s =
     s\<lparr>PORTA_OUT := PORTA_OUT s AND NOT PORTA_PIN_RESET,
       PORTA_DIR := PORTA_DIR s OR PORTA_PIN_RESET,
       pin_log := pin_log s @ [Deassert_reset]\<rparr>"

definition assert_powercycle :: "wdt_state \<Rightarrow> wdt_state" where
  "assert_powercycle s =
     s\<lparr>PORTA_OUT := PORTA_OUT s OR PORTA_PIN_POWERCYCLE,
       PORTA_DIR := PORTA_DIR s OR PORTA_PIN_POWERCYCLE,
       pin_log := pin_log s @ [Assert_powercycle]\<rparr>"

definition deassert_powercycle :: "wdt_state \<Rightarrow> wdt_state" where
  "deassert_powercycle s =
     s\<lparr>PORTA_OUT := PORTA_OUT s AND NOT PORTA_PIN_POWERCYCLE,
       PORTA_DIR := PORTA_DIR s OR PORTA_PIN_POWERCYCLE,
       pin_log := pin_log s @ [Deassert_powercycle]\<rparr>"

definition assert_alert :: "wdt_state \<Rightarrow> wdt_state" where
  "assert_alert s =
     s\<lparr>PORTA_OUT := PORTA_OUT s OR PORTA_PIN_ALERT,
       PORTA_DIR := PORTA_DIR s OR PORTA_PIN_ALERT,
       pin_log := pin_log s @ [Assert_alert]\<rparr>"

definition deassert_alert :: "wdt_state \<Rightarrow> wdt_state" where
  "deassert_alert s =
     s\<lparr>PORTA_OUT := PORTA_OUT s AND NOT PORTA_PIN_ALERT,
       PORTA_DIR := PORTA_DIR s OR PORTA_PIN_ALERT,
       pin_log := pin_log s @ [Deassert_alert]\<rparr>"

definition delay :: "nat \<Rightarrow> wdt_state \<Rightarrow> wdt_state" where
  "delay ms s = s\<lparr>pin_log := pin_log s @ [Delay_ms ms]\<rparr>"

definition cli :: "wdt_state \<Rightarrow> wdt_state" where
  "cli s = s\<lparr>sreg_i := False\<rparr>"

definition sei :: "wdt_state \<Rightarrow> wdt_state" where
  "sei s = s\<lparr>sreg_i := True\<rparr>"

text \<open>The level of a line is its bit of \<^verbatim>\<open>PORTA.OUT\<close> (all three are active high).\<close>

definition alert_line :: "wdt_state \<Rightarrow> bool" where
  "alert_line s = (PORTA_OUT s AND PORTA_PIN_ALERT \<noteq> 0)"

section \<open>The bus object\<close>

text \<open>
  \<^verbatim>\<open>Wire.available()\<close> is the number of received bytes not yet read,
  \<^verbatim>\<open>Wire.read()\<close> takes the next one (an \<^verbatim>\<open>int\<close>, -1 when there is none), and
  \<^verbatim>\<open>Wire.write(tx)\<close> queues one byte of the response.
\<close>

definition Wire_available :: "wdt_state \<Rightarrow> int" where
  "Wire_available s = int (length (wire_rx s))"

definition Wire_read :: "wdt_state \<Rightarrow> int \<times> wdt_state" where
  "Wire_read s =
     (case wire_rx s of
        [] \<Rightarrow> (- 1, s)
      | b # bs \<Rightarrow> (uint b, s\<lparr>wire_rx := bs\<rparr>))"

definition Wire_write :: "u8 \<Rightarrow> wdt_state \<Rightarrow> wdt_state" where
  "Wire_write tx s = s\<lparr>wire_tx := wire_tx s @ [tx]\<rparr>"

section \<open>I2C slave mode write\<close>

text \<open>The loop \<^verbatim>\<open>while(Wire.available()) { Wire.read(); }\<close> of \<^verbatim>\<open>i2c_receive_event\<close>.\<close>

function discard_others :: "wdt_state \<Rightarrow> wdt_state" where
  "discard_others s =
     (if Wire_available s \<noteq> 0 then discard_others (snd (Wire_read s)) else s)"
  by pat_completeness auto
termination
  by (relation "measure (\<lambda>s. length (wire_rx s))")
     (auto simp: Wire_available_def Wire_read_def split: list.splits)

declare discard_others.simps [simp del]

text \<open>The \<^verbatim>\<open>switch(register_pointer)\<close> of \<^verbatim>\<open>i2c_receive_event\<close> that applies the data byte.\<close>

definition apply_data :: "u8 \<Rightarrow> wdt_state \<Rightarrow> wdt_state" where
  "apply_data data s =
     (if register_pointer s = REG_WDT then
        sei (deassert_alert ((cli s)\<lparr>wdt_counter := data\<rparr>))
      else if register_pointer s = REG_CONFIG then
        sei ((cli s)\<lparr>config_reg := data\<rparr>)
      else s)"

definition i2c_receive_event :: "int \<Rightarrow> wdt_state \<Rightarrow> wdt_state" where
  "i2c_receive_event howMany s =
     (let s1 = (if Wire_available s \<noteq> 0
                then (case Wire_read s of (b, s') \<Rightarrow> s'\<lparr>register_pointer := word_of_int b\<rparr>)
                else s)
      in if \<not> (Wire_available s1 \<noteq> 0) then s1
         else (case Wire_read s1 of (b, s2) \<Rightarrow>
                 apply_data (word_of_int b) (discard_others s2)))"

section \<open>I2C slave mode read\<close>

definition i2c_request_event :: "wdt_state \<Rightarrow> wdt_state" where
  "i2c_request_event s =
     (let tx = (if register_pointer s = REG_VERSION then FW_VERSION
                else if register_pointer s = REG_CONFIG then config_reg s
                else if register_pointer s = REG_WDT then wdt_counter s
                else 0)
      in Wire_write tx s)"

section \<open>The timer tick\<close>

text \<open>
  The body of \<^verbatim>\<open>if(--wdt_counter == 0)\<close> after the increment of
  \<^verbatim>\<open>wdt_expirations\<close>: the alert on the first expiration, the pulses on the others.
\<close>

definition escalation :: "wdt_state \<Rightarrow> wdt_state" where
  "escalation s =
     (if wdt_expirations s = 1 then
        (if config_reg s AND CONFIG_ENABLE_ALERT \<noteq> 0 then assert_alert s else s)
      else
        (let s1 = (if config_reg s AND CONFIG_ENABLE_RESET \<noteq> 0
                   then (deassert_reset (delay 50 (assert_reset s)))\<lparr>wdt_expirations := 0\<rparr>
                   else s);
             s2 = (if config_reg s1 AND CONFIG_ENABLE_POWERCYCLE \<noteq> 0
                   then (deassert_powercycle (delay 50 (assert_powercycle s1)))\<lparr>wdt_expirations := 0\<rparr>
                   else s1)
         in s2))"

definition timer_handler :: "wdt_state \<Rightarrow> wdt_state" where
  "timer_handler s =
     (let s1 = s\<lparr>wdt_counter := wdt_counter s - 1\<rparr>
      in if wdt_counter s1 = 0
         then escalation (s1\<lparr>wdt_expirations := wdt_expirations s1 + 1\<rparr>)
         else s1)"

section \<open>Power-on and runs\<close>

text \<open>
  The initialisers of the globals (\<^verbatim>\<open>wdt_counter = ~0\<close>, the others zero but
  \<^verbatim>\<open>config_reg\<close>), with the port registers at their reset value and interrupts enabled
  as the Arduino core leaves them, and then the sketch's \<^verbatim>\<open>setup()\<close>
  (\<open>sketch_setup\<close> here: the name is a keyword).
\<close>

definition initial_state :: wdt_state where
  "initial_state =
     \<lparr>wdt_counter = word_of_int (NOT 0), wdt_expirations = 0, register_pointer = 0,
      config_reg = CONFIG_ENABLE_ALERT OR CONFIG_ENABLE_POWERCYCLE,
      PORTA_OUT = 0, PORTA_DIR = 0, sreg_i = True,
      wire_rx = [], wire_tx = [], pin_log = []\<rparr>"

definition sketch_setup :: "wdt_state \<Rightarrow> wdt_state" where
  "sketch_setup s =
     s\<lparr>PORTA_OUT := 0,
       PORTA_DIR := PORTA_PIN_RESET OR PORTA_PIN_ALERT OR PORTA_PIN_POWERCYCLE\<rparr>"

definition power_on :: wdt_state where
  "power_on = sketch_setup initial_state"

text \<open>
  A write transaction: the bus library fills its receive buffer with the bytes the
  host sent and calls \<^verbatim>\<open>i2c_receive_event\<close> with their number.
\<close>

definition write_txn :: "u8 list \<Rightarrow> wdt_state \<Rightarrow> wdt_state" where
  "write_txn bytes s = i2c_receive_event (int (length bytes)) (s\<lparr>wire_rx := bytes\<rparr>)"

text \<open>\<open>n\<close> timer ticks in a row.\<close>

primrec ticks :: "nat \<Rightarrow> wdt_state \<Rightarrow> wdt_state" where
  "ticks 0 s = s"
| "ticks (Suc n) s = ticks n (timer_handler s)"

text \<open>
  The number of ticks up to and including the first one whose decrement produces zero:
  the counter's value, or 256 when the counter is 0 (the decrement then wraps to 255).
\<close>

definition first_zero :: "wdt_state \<Rightarrow> nat" where
  "first_zero s = (if wdt_counter s = 0 then 256 else unat (wdt_counter s))"

text \<open>
  How many of the next \<open>n\<close> ticks are expiration events (their decrement produces
  zero: the counter was 1 before the tick).
\<close>

primrec zero_crossings :: "nat \<Rightarrow> wdt_state \<Rightarrow> nat" where
  "zero_crossings 0 s = 0"
| "zero_crossings (Suc n) s =
     (if wdt_counter s = 1 then 1 else 0) + zero_crossings n (timer_handler s)"

text \<open>
  A tick completes an escalation action when it logs the end of a reset pulse or of a
  power-cycle pulse.
\<close>

definition completes_escalation :: "wdt_state \<Rightarrow> bool" where
  "completes_escalation s =
     (let new = drop (length (pin_log s)) (pin_log (timer_handler s))
      in Deassert_reset \<in> set new \<or> Deassert_powercycle \<in> set new)"

section \<open>Basic facts\<close>

lemmas pin_defs = assert_alert_def deassert_alert_def assert_reset_def deassert_reset_def
  assert_powercycle_def deassert_powercycle_def delay_def

lemmas const_defs = FW_VERSION_def PORTA_PIN_RESET_def PORTA_PIN_ALERT_def
  PORTA_PIN_POWERCYCLE_def REG_VERSION_def REG_CONFIG_def REG_WDT_def
  CONFIG_ENABLE_RESET_def CONFIG_ENABLE_POWERCYCLE_def CONFIG_ENABLE_ALERT_def

lemma power_on_eq:
  "power_on =
     \<lparr>wdt_counter = 255, wdt_expirations = 0, register_pointer = 0, config_reg = 6,
      PORTA_OUT = 0, PORTA_DIR = 200, sreg_i = True,
      wire_rx = [], wire_tx = [], pin_log = []\<rparr>"
  by (simp add: power_on_def sketch_setup_def initial_state_def const_defs)

lemma discard_others_empty: "discard_others s = s\<lparr>wire_rx := []\<rparr>"
proof (induction s rule: discard_others.induct)
  case (1 s)
  show ?case
  proof (cases "wire_rx s")
    case Nil
    then show ?thesis
      by (subst discard_others.simps) (simp add: Wire_available_def)
  next
    case (Cons b bs)
    then have "discard_others s = discard_others (s\<lparr>wire_rx := bs\<rparr>)"
      by (subst discard_others.simps) (simp add: Wire_available_def Wire_read_def)
    also have "\<dots> = (s\<lparr>wire_rx := bs\<rparr>)\<lparr>wire_rx := []\<rparr>"
      using "1.IH" Cons by (simp add: Wire_available_def Wire_read_def)
    finally show ?thesis by simp
  qed
qed

lemma receive_address_only:
  "i2c_receive_event n (s\<lparr>wire_rx := [a]\<rparr>) = s\<lparr>register_pointer := a, wire_rx := []\<rparr>"
  by (simp add: i2c_receive_event_def Wire_available_def Wire_read_def)

lemma receive_address_data:
  "i2c_receive_event n (s\<lparr>wire_rx := a # d # rest\<rparr>) =
     apply_data d (s\<lparr>register_pointer := a, wire_rx := []\<rparr>)"
  by (simp add: i2c_receive_event_def Wire_available_def Wire_read_def discard_others_empty)

lemma write_txn_address_only: "write_txn [a] s = s\<lparr>register_pointer := a, wire_rx := []\<rparr>"
  unfolding write_txn_def by (rule receive_address_only)

lemma write_txn_address_data:
  "write_txn (a # d # rest) s = apply_data d (s\<lparr>register_pointer := a, wire_rx := []\<rparr>)"
  unfolding write_txn_def by (rule receive_address_data)

lemma unat_dec: "unat (w - 1 :: u8) = (unat w + 255) mod 256"
proof (cases "w = 0")
  case True
  then show ?thesis by (simp add: unsigned_minus_1_eq_mask mask_eq_exp_minus_1)
next
  case False
  then have m: "unat (w - 1) = unat w - 1" by (rule unat_minus_one)
  have pos: "0 < unat w" using False by (simp add: unat_gt_0)
  have "unat w < 2 ^ LENGTH(8)" by (rule unsigned_less)
  then have lt: "unat w < 256" by simp
  from pos have "unat w + 255 = (unat w - 1) + 256" by simp
  then have "(unat w + 255) mod 256 = (unat w - 1) mod 256" by (simp only: mod_add_self2)
  also have "\<dots> = unat w - 1" using lt by simp
  finally show ?thesis using m by simp
qed

lemma or_and_not: "(x OR a) AND NOT a = x AND NOT (a :: u8)"
  by (auto simp: bit_eq_iff bit_simps)

lemma escalation_both:
  assumes "wdt_expirations s \<noteq> 1"
    and "config_reg s AND CONFIG_ENABLE_RESET \<noteq> 0"
    and "config_reg s AND CONFIG_ENABLE_POWERCYCLE \<noteq> 0"
  shows "escalation s =
     s\<lparr>wdt_expirations := 0,
       PORTA_OUT := (((PORTA_OUT s OR PORTA_PIN_RESET) AND NOT PORTA_PIN_RESET)
                      OR PORTA_PIN_POWERCYCLE) AND NOT PORTA_PIN_POWERCYCLE,
       PORTA_DIR := PORTA_DIR s OR PORTA_PIN_RESET OR PORTA_PIN_POWERCYCLE,
       pin_log := pin_log s @ [Assert_reset, Delay_ms 50, Deassert_reset,
                    Assert_powercycle, Delay_ms 50, Deassert_powercycle]\<rparr>"
  using assms by (simp add: escalation_def Let_def pin_defs ac_simps)

subsection \<open>Runs of ticks\<close>

lemma timer_handler_counter: "wdt_counter (timer_handler s) = wdt_counter s - 1"
  by (simp add: timer_handler_def escalation_def Let_def pin_defs)

lemma ticks_Suc_right: "ticks (Suc n) s = timer_handler (ticks n s)"
  by (induction n arbitrary: s) simp_all

lemma ticks_add: "ticks (m + n) s = ticks n (ticks m s)"
  by (induction m arbitrary: s) simp_all

lemma first_zero_le: "first_zero s \<le> 256"
proof -
  have "unat (wdt_counter s) < 2 ^ LENGTH(8)" by (rule unsigned_less)
  then show ?thesis by (simp add: first_zero_def)
qed

lemma counter_eq_of_nat:
  assumes "0 < k" and "k \<le> 256"
  shows "wdt_counter s = of_nat k \<longleftrightarrow> first_zero s = k"
proof
  assume eq: "wdt_counter s = of_nat k"
  have u: "unat (wdt_counter s) = k mod 256"
    unfolding eq by (simp add: unat_of_nat)
  show "first_zero s = k"
  proof (cases "k = 256")
    case True
    with u have "unat (wdt_counter s) = 0" by simp
    then have "wdt_counter s = 0" by (simp add: unat_eq_0)
    with True show ?thesis by (simp add: first_zero_def)
  next
    case False
    with assms have "k < 256" by simp
    with u assms have "unat (wdt_counter s) = k" by simp
    with assms show ?thesis by (auto simp: first_zero_def)
  qed
next
  assume fz: "first_zero s = k"
  show "wdt_counter s = of_nat k"
  proof (cases "wdt_counter s = 0")
    case True
    with fz have "k = 256" by (simp add: first_zero_def)
    with True show ?thesis by simp
  next
    case False
    with fz have "unat (wdt_counter s) = k" by (simp add: first_zero_def)
    then have "(of_nat (unat (wdt_counter s)) :: u8) = of_nat k" by simp
    then show ?thesis by simp
  qed
qed

lemma counter_ne: "Suc n < first_zero s \<Longrightarrow> wdt_counter s - of_nat n - 1 \<noteq> 0"
proof
  assume lt: "Suc n < first_zero s" and z: "wdt_counter s - of_nat n - 1 = 0"
  from z have "wdt_counter s = of_nat (Suc n)" by (simp add: algebra_simps)
  moreover have "Suc n \<le> 256" using lt first_zero_le [of s] by simp
  ultimately have "first_zero s = Suc n" using counter_eq_of_nat [of "Suc n" s] by simp
  with lt show False by simp
qed

lemma ticks_before_zero:
  "n < first_zero s \<Longrightarrow> ticks n s = s\<lparr>wdt_counter := wdt_counter s - of_nat n\<rparr>"
proof (induction n)
  case 0
  then show ?case by simp
next
  case (Suc n)
  then have ih: "ticks n s = s\<lparr>wdt_counter := wdt_counter s - of_nat n\<rparr>" by simp
  have ne: "wdt_counter s - of_nat n - 1 \<noteq> 0" using counter_ne [OF Suc.prems] .
  show ?case
    unfolding ticks_Suc_right ih using ne
    by (simp add: timer_handler_def Let_def diff_diff_eq)
qed

lemma ticks_first_zero:
  "ticks (first_zero s) s =
     escalation (s\<lparr>wdt_counter := 0, wdt_expirations := wdt_expirations s + 1\<rparr>)"
proof -
  obtain k where k: "first_zero s = Suc k"
    by (cases "first_zero s") (auto simp: first_zero_def unat_eq_0 split: if_splits)
  have "k < first_zero s" using k by simp
  then have st: "ticks k s = s\<lparr>wdt_counter := wdt_counter s - of_nat k\<rparr>"
    by (rule ticks_before_zero)
  have "Suc k \<le> 256" using first_zero_le [of s] k by simp
  then have "wdt_counter s = of_nat (Suc k)"
    using counter_eq_of_nat [of "Suc k" s] k by simp
  then have z: "wdt_counter s - of_nat k - 1 = 0" by simp
  show ?thesis
    unfolding k ticks_Suc_right st using z
    by (simp add: timer_handler_def Let_def)
qed

subsection \<open>The alert line and the refresh write\<close>

lemma alert_line_bit: "alert_line s \<longleftrightarrow> bit (PORTA_OUT s) 6"
  unfolding alert_line_def PORTA_PIN_ALERT_def push_bit_of_1
  by (simp only: and_exp_eq_0_iff_not_bit not_not)

lemma alert_line_escalation: "alert_line s \<Longrightarrow> alert_line (escalation s)"
  by (simp add: alert_line_bit escalation_def Let_def pin_defs bit_simps
      PORTA_PIN_ALERT_def PORTA_PIN_RESET_def PORTA_PIN_POWERCYCLE_def)

lemma alert_line_timer_handler: "alert_line s \<Longrightarrow> alert_line (timer_handler s)"
proof -
  assume a: "alert_line s"
  have "alert_line (escalation (s\<lparr>wdt_counter := 0, wdt_expirations := wdt_expirations s + 1\<rparr>))"
    by (rule alert_line_escalation) (use a in \<open>simp add: alert_line_def\<close>)
  with a show ?thesis
    by (simp add: timer_handler_def Let_def alert_line_def)
qed

lemma alert_line_ticks: "alert_line s \<Longrightarrow> alert_line (ticks n s)"
  by (induction n arbitrary: s) (simp_all add: alert_line_timer_handler)

lemma alert_line_assert_alert: "alert_line (assert_alert s)"
  by (simp add: alert_line_bit assert_alert_def bit_simps PORTA_PIN_ALERT_def)

lemma refresh_write:
  "write_txn (REG_WDT # d # rest) s =
     s\<lparr>wdt_counter := d, register_pointer := REG_WDT,
       PORTA_OUT := PORTA_OUT s AND NOT PORTA_PIN_ALERT,
       PORTA_DIR := PORTA_DIR s OR PORTA_PIN_ALERT,
       sreg_i := True, wire_rx := [],
       pin_log := pin_log s @ [Deassert_alert]\<rparr>"
  by (simp add: write_txn_address_data apply_data_def cli_def sei_def deassert_alert_def)

lemma refresh_write_alert_low: "\<not> alert_line (write_txn (REG_WDT # d # rest) s)"
  by (simp add: refresh_write alert_line_bit bit_simps PORTA_PIN_ALERT_def)

subsection \<open>Counting expirations\<close>

lemma config_reg_timer_handler: "config_reg (timer_handler s) = config_reg s"
  by (simp add: timer_handler_def escalation_def Let_def pin_defs)

lemma config_reg_ticks: "config_reg (ticks n s) = config_reg s"
  by (induction n arbitrary: s) (simp_all add: config_reg_timer_handler)

lemma first_zero_pos: "0 < first_zero s"
  by (simp add: first_zero_def unat_gt_0)

lemma first_zero_timer_handler:
  "first_zero (timer_handler s) = (if wdt_counter s = 1 then 256 else first_zero s - 1)"
proof (cases "wdt_counter s = 0")
  case True
  have "unat (- 1 :: u8) = 255"
    by (simp add: unsigned_minus_1_eq_mask mask_eq_exp_minus_1)
  moreover have "(- 1 :: u8) \<noteq> 0" by simp
  ultimately have "first_zero (timer_handler s) = 255"
    using True by (simp add: first_zero_def timer_handler_counter)
  with True show ?thesis by (simp add: first_zero_def)
next
  case False
  then have "unat (wdt_counter s - 1) = unat (wdt_counter s) - 1" by (rule unat_minus_one)
  with False show ?thesis
    by (auto simp: first_zero_def timer_handler_counter)
qed

lemma zero_crossings_closed: "zero_crossings n s = (n + 256 - first_zero s) div 256"
proof (induction n arbitrary: s)
  case 0
  have "256 - first_zero s < 256" using first_zero_pos [of s] by simp
  then show ?case by simp
next
  case (Suc n)
  show ?case
  proof (cases "wdt_counter s = 1")
    case True
    then have "first_zero s = 1" by (simp add: first_zero_def)
    with True show ?thesis by (simp add: Suc first_zero_timer_handler)
  next
    case False
    have "first_zero s \<noteq> 1"
      using False counter_eq_of_nat [of 1 s] by simp
    then have "2 \<le> first_zero s" using first_zero_pos [of s] by simp
    moreover have "first_zero s \<le> 256" by (rule first_zero_le)
    ultimately have "n + 256 - (first_zero s - 1) = Suc n + 256 - first_zero s" by simp
    with False show ?thesis by (simp add: Suc first_zero_timer_handler)
  qed
qed

lemma completes_escalation_iff:
  "completes_escalation s \<longleftrightarrow>
     wdt_counter s = 1 \<and> wdt_expirations s \<noteq> 0 \<and>
     (config_reg s AND CONFIG_ENABLE_RESET \<noteq> 0 \<or> config_reg s AND CONFIG_ENABLE_POWERCYCLE \<noteq> 0)"
  by (auto simp: completes_escalation_def timer_handler_def escalation_def Let_def pin_defs)

lemma expirations_timer_handler:
  "\<not> completes_escalation s \<Longrightarrow>
     wdt_expirations (timer_handler s) =
       wdt_expirations s + (if wdt_counter s = 1 then 1 else 0)"
  by (auto simp: completes_escalation_iff timer_handler_def escalation_def Let_def pin_defs)

lemma expirations_ticks:
  "(\<forall>k<n. \<not> completes_escalation (ticks k s)) \<Longrightarrow>
     wdt_expirations (ticks n s) = wdt_expirations s + of_nat (zero_crossings n s)"
proof (induction n arbitrary: s)
  case 0
  then show ?case by simp
next
  case (Suc n)
  from Suc.prems have now: "\<not> completes_escalation s" by (metis ticks.simps(1) zero_less_Suc)
  have later: "\<forall>k<n. \<not> completes_escalation (ticks k (timer_handler s))"
  proof (intro allI impI)
    fix k assume "k < n"
    then have "Suc k < Suc n" by simp
    with Suc.prems have "\<not> completes_escalation (ticks (Suc k) s)" by blast
    then show "\<not> completes_escalation (ticks k (timer_handler s))" by simp
  qed
  show ?case
    using Suc.IH [OF later] expirations_timer_handler [OF now] by simp
qed


lemma config_write:
  "write_txn (REG_CONFIG # d # rest) s =
     s\<lparr>register_pointer := REG_CONFIG, config_reg := d, sreg_i := True, wire_rx := []\<rparr>"
  by (simp add: write_txn_address_data apply_data_def cli_def sei_def REG_CONFIG_def REG_WDT_def)

lemma pin_log_timer_handler_disabled:
  "config_reg s = 0 \<Longrightarrow> pin_log (timer_handler s) = pin_log s"
  by (simp add: timer_handler_def escalation_def Let_def)

lemma pin_log_ticks_disabled: "config_reg s = 0 \<Longrightarrow> pin_log (ticks n s) = pin_log s"
  by (induction n arbitrary: s)
     (simp_all add: pin_log_timer_handler_disabled config_reg_timer_handler)

lemma disabled_never_escalates: "config_reg s = 0 \<Longrightarrow> \<not> completes_escalation (ticks k s)"
  by (simp add: completes_escalation_iff config_reg_ticks)

lemma zero_crossings_mono: "m \<le> n \<Longrightarrow> zero_crossings m s \<le> zero_crossings n s"
  unfolding zero_crossings_closed by (intro div_le_mono diff_le_mono add_le_mono) simp_all

lemma unat_add_of_nat: "unat (w + of_nat k :: u8) = (unat w + k) mod 256"
  by (simp add: unat_word_ariths unat_of_nat mod_add_right_eq)

lemma first_expiration_alert:
  assumes "wdt_expirations s = 0" and "config_reg s AND CONFIG_ENABLE_ALERT \<noteq> 0"
  shows "ticks (first_zero s) s = assert_alert (s\<lparr>wdt_counter := 0, wdt_expirations := 1\<rparr>)"
  using assms by (simp add: ticks_first_zero escalation_def)

lemma refresh_write_idempotent:
  "wdt_counter (write_txn (REG_WDT # d # rest) s) = d
   \<and> wdt_expirations (write_txn (REG_WDT # d # rest) s) = wdt_expirations s
   \<and> \<not> alert_line (write_txn (REG_WDT # d # rest) s)
   \<and> write_txn (REG_WDT # d # rest') (write_txn (REG_WDT # d # rest) s)
       = (write_txn (REG_WDT # d # rest) s)
           \<lparr>pin_log := pin_log (write_txn (REG_WDT # d # rest) s) @ [Deassert_alert]\<rparr>"
  using refresh_write_alert_low [of d rest s]
  by (simp add: refresh_write word_bw_assocs)

lemma ticks_255_power_on:
  "ticks 255 power_on =
     \<lparr>wdt_counter = 0, wdt_expirations = 1, register_pointer = 0, config_reg = 6,
      PORTA_OUT = 64, PORTA_DIR = 200, sreg_i = True,
      wire_rx = [], wire_tx = [], pin_log = [Assert_alert]\<rparr>"
proof -
  have fz: "first_zero power_on = 255" by (simp add: power_on_eq first_zero_def)
  show ?thesis
    using ticks_first_zero [of power_on] unfolding fz
    by (simp add: power_on_eq escalation_def assert_alert_def const_defs)
qed

section \<open>The register file\<close>

text \<open>
  Claim C8. A write transaction that carries only the address byte latches the register
  pointer and changes nothing else (the receive buffer ends empty). One that carries data
  applies its first data byte \<open>d\<close> and nothing more: at address 2 (WDT) the counter
  becomes \<open>d\<close> and the alert line (bit 6 of port A) is driven low, at address 1
  (CONFIG) the configuration becomes \<open>d\<close>, at any other address only the register
  pointer changes. The bytes after \<open>d\<close> are read and dropped: the receive buffer
  ends empty and the result is that of the transaction cut after its first data byte.
  The argument \<open>howMany\<close> plays no part.
\<close>

theorem C8_write_transaction:
  "i2c_receive_event n (s\<lparr>wire_rx := [a]\<rparr>) = s\<lparr>register_pointer := a, wire_rx := []\<rparr>
   \<and> i2c_receive_event n (s\<lparr>wire_rx := a # d # rest\<rparr>) =
       (if a = 2 then
          s\<lparr>wdt_counter := d, register_pointer := 2,
            PORTA_OUT := PORTA_OUT s AND NOT 64, PORTA_DIR := PORTA_DIR s OR 64,
            sreg_i := True, wire_rx := [], pin_log := pin_log s @ [Deassert_alert]\<rparr>
        else if a = 1 then
          s\<lparr>register_pointer := 1, config_reg := d, sreg_i := True, wire_rx := []\<rparr>
        else s\<lparr>register_pointer := a, wire_rx := []\<rparr>)
   \<and> i2c_receive_event n (s\<lparr>wire_rx := a # d # rest\<rparr>) =
       apply_data d (s\<lparr>register_pointer := a, wire_rx := []\<rparr>)
   \<and> wire_rx (i2c_receive_event n (s\<lparr>wire_rx := a # d # rest\<rparr>)) = []
   \<and> i2c_receive_event n (s\<lparr>wire_rx := a # d # rest\<rparr>) =
       i2c_receive_event m (s\<lparr>wire_rx := [a, d]\<rparr>)"
proof -
  have eff: "apply_data d (s\<lparr>register_pointer := a, wire_rx := []\<rparr>) =
       (if a = 2 then
          s\<lparr>wdt_counter := d, register_pointer := 2,
            PORTA_OUT := PORTA_OUT s AND NOT 64, PORTA_DIR := PORTA_DIR s OR 64,
            sreg_i := True, wire_rx := [], pin_log := pin_log s @ [Deassert_alert]\<rparr>
        else if a = 1 then
          s\<lparr>register_pointer := 1, config_reg := d, sreg_i := True, wire_rx := []\<rparr>
        else s\<lparr>register_pointer := a, wire_rx := []\<rparr>)"
    by (simp add: apply_data_def cli_def sei_def deassert_alert_def
        REG_WDT_def REG_CONFIG_def PORTA_PIN_ALERT_def)
  have "wire_rx (apply_data d (s\<lparr>register_pointer := a, wire_rx := []\<rparr>)) = []"
    by (simp add: apply_data_def cli_def sei_def deassert_alert_def)
  with eff show ?thesis
    by (simp only: receive_address_only receive_address_data)
qed

text \<open>
  Claim C1, at a concrete run. From power-on, 255 ticks bring the first expiration: the
  count is 1 and the alert is asserted. A refresh write of 5 to the WDT register then
  reloads the counter and deasserts the alert (\<open>refresh_write_idempotent\<close> above holds
  for every state), but the expiration count is still 1, not 0. Five ticks later the
  next expiration is therefore taken for a second one: no alert is raised, the
  power-cycle pulse fires at once.
\<close>

theorem C1_refresh_keeps_expiration_count:
  "wdt_expirations (ticks 255 power_on) = 1
   \<and> pin_log (ticks 255 power_on) = [Assert_alert]
   \<and> wdt_expirations (write_txn [REG_WDT, 5] (ticks 255 power_on)) = 1
   \<and> pin_log (ticks 5 (write_txn [REG_WDT, 5] (ticks 255 power_on))) =
       [Assert_alert, Deassert_alert, Assert_powercycle, Delay_ms 50, Deassert_powercycle]"
proof -
  let ?r = "write_txn [REG_WDT, 5] (ticks 255 power_on)"
  have r: "?r =
     \<lparr>wdt_counter = 5, wdt_expirations = 1, register_pointer = REG_WDT, config_reg = 6,
      PORTA_OUT = 0, PORTA_DIR = 200, sreg_i = True,
      wire_rx = [], wire_tx = [], pin_log = [Assert_alert, Deassert_alert]\<rparr>"
    by (simp add: refresh_write ticks_255_power_on PORTA_PIN_ALERT_def)
  have fz: "first_zero ?r = 5" unfolding r by (simp add: first_zero_def)
  have "ticks 5 ?r = escalation (?r\<lparr>wdt_counter := 0, wdt_expirations := wdt_expirations ?r + 1\<rparr>)"
    using ticks_first_zero [of ?r] unfolding fz .
  then have l: "pin_log (ticks 5 ?r) =
       [Assert_alert, Deassert_alert, Assert_powercycle, Delay_ms 50, Deassert_powercycle]"
    unfolding r by (simp add: escalation_def Let_def pin_defs const_defs)
  have e: "wdt_expirations ?r = 1" unfolding r by simp
  from e l show ?thesis by (simp add: ticks_255_power_on)
qed

text \<open>
  Claim C7. A write of \<open>v\<close> to CONFIG followed by a read returns \<open>v\<close>, for every byte
  \<open>v\<close>, whether the read follows the write directly or after an address-only write
  that selects CONFIG again.
\<close>

theorem C7_config_round_trip:
  "wire_tx (i2c_request_event (write_txn (REG_CONFIG # v # rest) s)) = wire_tx s @ [v]
   \<and> wire_tx (i2c_request_event (write_txn [REG_CONFIG] (write_txn (REG_CONFIG # v # rest) s)))
       = wire_tx s @ [v]"
  by (simp add: write_txn_address_data write_txn_address_only apply_data_def
      i2c_request_event_def Wire_write_def cli_def sei_def
      REG_CONFIG_def REG_WDT_def REG_VERSION_def)

text \<open>
  Claim C2, as stated, fails: the firmware does not know whether an address phase came
  before a read. At power-on the register pointer is 0, the VERSION address, and a read
  answers \<open>0x10\<close>.
\<close>

theorem C2_counterexample:
  "wire_tx (i2c_request_event power_on) = [0x10] \<and> wire_tx (i2c_request_event power_on) \<noteq> [0]"
  by (simp add: power_on_def sketch_setup_def initial_state_def i2c_request_event_def
      Wire_write_def REG_VERSION_def FW_VERSION_def)

text \<open>
  Claim C2, amended. A read request answers with the register selected by the pointer
  that the most recent address byte latched (VERSION, address 0, at power-on): the
  firmware version, the configuration, the counter, and 0 for any other address. It
  changes no register: only the response byte is queued.
\<close>

theorem C2_read_uses_latched_pointer:
  "i2c_request_event s =
     s\<lparr>wire_tx := wire_tx s @
        [if register_pointer s = 0 then 0x10
         else if register_pointer s = 1 then config_reg s
         else if register_pointer s = 2 then wdt_counter s
         else 0]\<rparr>
   \<and> wdt_counter (i2c_request_event s) = wdt_counter s
   \<and> wdt_expirations (i2c_request_event s) = wdt_expirations s
   \<and> config_reg (i2c_request_event s) = config_reg s
   \<and> register_pointer (i2c_request_event s) = register_pointer s"
  by (simp add: i2c_request_event_def Wire_write_def REG_VERSION_def REG_CONFIG_def
      REG_WDT_def FW_VERSION_def)

section \<open>The tick engine and the escalation\<close>

text \<open>
  Claim C6. A tick decrements the counter by one modulo 256 (0 wraps to 255). When the
  decrement produces zero, the expiration count is incremented and \<open>escalation\<close> runs
  on the state that holds the new count; otherwise the tick changes nothing but the
  counter.
\<close>

theorem C6_tick:
  "wdt_counter (timer_handler s) = wdt_counter s - 1
   \<and> unat (wdt_counter (timer_handler s)) = (unat (wdt_counter s) + 255) mod 256
   \<and> wdt_counter (timer_handler (s\<lparr>wdt_counter := 0\<rparr>)) = 255
   \<and> timer_handler s =
       (if wdt_counter s - 1 = 0
        then escalation (s\<lparr>wdt_counter := 0, wdt_expirations := wdt_expirations s + 1\<rparr>)
        else s\<lparr>wdt_counter := wdt_counter s - 1\<rparr>)"
proof -
  have a: "wdt_counter (timer_handler s) = wdt_counter s - 1" for s
    by (rule timer_handler_counter)
  have b: "timer_handler s =
       (if wdt_counter s - 1 = 0
        then escalation (s\<lparr>wdt_counter := 0, wdt_expirations := wdt_expirations s + 1\<rparr>)
        else s\<lparr>wdt_counter := wdt_counter s - 1\<rparr>)"
    by (simp add: timer_handler_def Let_def)
  have c: "unat (wdt_counter (timer_handler s)) = (unat (wdt_counter s) + 255) mod 256"
    unfolding a by (rule unat_dec)
  have d: "wdt_counter (timer_handler (s\<lparr>wdt_counter := 0\<rparr>)) = 255"
    unfolding a by simp
  from a [of s] c d b show ?thesis by (intro conjI)
qed

text \<open>
  Claim C5. On an expiration whose new count is at least 2, with both enable-reset and
  enable-powercycle set, the tick is the reset pulse followed by the power-cycle pulse.
  Each pulse drives its line: after \<open>assert_reset\<close> bit 3 of \<^verbatim>\<open>PORTA.OUT\<close> (and of
  \<^verbatim>\<open>PORTA.DIR\<close>) is set, it is still set after the 50 ms delay, and
  \<open>deassert_reset\<close> clears it; the same holds of bit 7 for the power-cycle line. The
  tick ends with both lines low and the other port bits as they were, the six calls
  logged in that order, and the expiration count at 0.
\<close>

theorem C5_both_pulses:
  assumes "wdt_counter s = 1"
    and "2 \<le> unat (wdt_expirations s + 1)"
    and "config_reg s AND CONFIG_ENABLE_RESET \<noteq> 0"
    and "config_reg s AND CONFIG_ENABLE_POWERCYCLE \<noteq> 0"
  shows "(let s1 = s\<lparr>wdt_counter := 0, wdt_expirations := wdt_expirations s + 1\<rparr>;
              r1 = assert_reset s1;
              r2 = delay 50 r1;
              r3 = (deassert_reset r2)\<lparr>wdt_expirations := 0\<rparr>;
              p1 = assert_powercycle r3;
              p2 = delay 50 p1;
              p3 = (deassert_powercycle p2)\<lparr>wdt_expirations := 0\<rparr>
          in timer_handler s = p3
             \<and> bit (PORTA_OUT r1) 3 \<and> bit (PORTA_DIR r1) 3
             \<and> bit (PORTA_OUT r2) 3 \<and> bit (PORTA_DIR r2) 3
             \<and> \<not> bit (PORTA_OUT r3) 3 \<and> bit (PORTA_DIR r3) 3
             \<and> bit (PORTA_OUT p1) 7 \<and> bit (PORTA_DIR p1) 7
             \<and> bit (PORTA_OUT p2) 7 \<and> bit (PORTA_DIR p2) 7
             \<and> \<not> bit (PORTA_OUT p3) 7 \<and> bit (PORTA_DIR p3) 7)
         \<and> PORTA_OUT (timer_handler s) = (PORTA_OUT s AND NOT 8) AND NOT 128
         \<and> PORTA_DIR (timer_handler s) = (PORTA_DIR s OR 8) OR 128
         \<and> pin_log (timer_handler s) =
             pin_log s @ [Assert_reset, Delay_ms 50, Deassert_reset,
                          Assert_powercycle, Delay_ms 50, Deassert_powercycle]
         \<and> wdt_expirations (timer_handler s) = 0"
proof -
  let ?s1 = "s\<lparr>wdt_counter := 0, wdt_expirations := wdt_expirations s + 1\<rparr>"
  let ?r3 = "(deassert_reset (delay 50 (assert_reset ?s1)))\<lparr>wdt_expirations := 0\<rparr>"
  let ?p3 = "(deassert_powercycle (delay 50 (assert_powercycle ?r3)))\<lparr>wdt_expirations := 0\<rparr>"
  have th: "timer_handler s = escalation ?s1"
    using assms(1) by (simp add: timer_handler_def Let_def)
  have ne: "wdt_expirations ?s1 \<noteq> 1" using assms(2) by auto
  have cfg: "config_reg ?r3 = config_reg s"
    by (simp add: pin_defs)
  have run: "timer_handler s = ?p3"
    unfolding th using ne assms(3,4) cfg
    by (simp add: escalation_def Let_def del: One_nat_def)
  have reset_bits:
    "bit (PORTA_OUT (assert_reset ?s1)) 3" "bit (PORTA_DIR (assert_reset ?s1)) 3"
    "bit (PORTA_OUT (delay 50 (assert_reset ?s1))) 3"
    "bit (PORTA_DIR (delay 50 (assert_reset ?s1))) 3"
    "\<not> bit (PORTA_OUT ?r3) 3" "bit (PORTA_DIR ?r3) 3"
    by (simp_all add: pin_defs PORTA_PIN_RESET_def bit_simps)
  have power_bits:
    "bit (PORTA_OUT (assert_powercycle ?r3)) 7" "bit (PORTA_DIR (assert_powercycle ?r3)) 7"
    "bit (PORTA_OUT (delay 50 (assert_powercycle ?r3))) 7"
    "bit (PORTA_DIR (delay 50 (assert_powercycle ?r3))) 7"
    "\<not> bit (PORTA_OUT ?p3) 7" "bit (PORTA_DIR ?p3) 7"
    by (simp_all add: pin_defs PORTA_PIN_POWERCYCLE_def bit_simps)
  have "PORTA_OUT ?p3 = (PORTA_OUT s AND NOT PORTA_PIN_RESET) AND NOT PORTA_PIN_POWERCYCLE"
    by (simp add: pin_defs or_and_not)
  then have out: "PORTA_OUT ?p3 = (PORTA_OUT s AND NOT 8) AND NOT 128"
    by (simp add: PORTA_PIN_RESET_def PORTA_PIN_POWERCYCLE_def)
  have dir: "PORTA_DIR ?p3 = (PORTA_DIR s OR 8) OR 128"
    by (simp add: pin_defs PORTA_PIN_RESET_def PORTA_PIN_POWERCYCLE_def ac_simps)
  have log: "pin_log ?p3 =
             pin_log s @ [Assert_reset, Delay_ms 50, Deassert_reset,
                          Assert_powercycle, Delay_ms 50, Deassert_powercycle]"
    by (simp add: pin_defs)
  have cnt: "wdt_expirations ?p3 = 0" by simp
  show ?thesis
    unfolding Let_def run
    using reset_bits power_bits out dir log cnt by (intro conjI refl) assumption+
qed

theorem C5_both_pulses_witness:
  "wdt_counter (power_on\<lparr>wdt_counter := 1, wdt_expirations := 1, config_reg := 7\<rparr>) = 1
   \<and> 2 \<le> unat (wdt_expirations
                (power_on\<lparr>wdt_counter := 1, wdt_expirations := 1, config_reg := 7\<rparr>) + 1)
   \<and> PORTA_OUT (assert_reset
        (power_on\<lparr>wdt_counter := 0, wdt_expirations := 2, config_reg := 7\<rparr>)) = 8
   \<and> PORTA_OUT (timer_handler
        (power_on\<lparr>wdt_counter := 1, wdt_expirations := 1, config_reg := 7\<rparr>)) = 0
   \<and> pin_log (timer_handler
        (power_on\<lparr>wdt_counter := 1, wdt_expirations := 1, config_reg := 7\<rparr>)) =
       [Assert_reset, Delay_ms 50, Deassert_reset,
        Assert_powercycle, Delay_ms 50, Deassert_powercycle]
   \<and> wdt_expirations (timer_handler
        (power_on\<lparr>wdt_counter := 1, wdt_expirations := 1, config_reg := 7\<rparr>)) = 0"
proof -
  let ?s = "power_on\<lparr>wdt_counter := 1, wdt_expirations := 1, config_reg := 7\<rparr>"
  have h1: "wdt_counter ?s = 1" by simp
  have h2: "2 \<le> unat (wdt_expirations ?s + 1)" by simp
  have h3: "config_reg ?s AND CONFIG_ENABLE_RESET \<noteq> 0"
    by (simp add: CONFIG_ENABLE_RESET_def)
  have h4: "config_reg ?s AND CONFIG_ENABLE_POWERCYCLE \<noteq> 0"
    by (simp add: CONFIG_ENABLE_POWERCYCLE_def)
  note c = C5_both_pulses [OF h1 h2 h3 h4]
  have o: "PORTA_OUT (timer_handler ?s) = 0"
    using c by (simp add: power_on_eq)
  have l: "pin_log (timer_handler ?s) =
       [Assert_reset, Delay_ms 50, Deassert_reset,
        Assert_powercycle, Delay_ms 50, Deassert_powercycle]"
    using c by (simp add: power_on_eq)
  have e: "wdt_expirations (timer_handler ?s) = 0" using c by simp
  have r: "PORTA_OUT (assert_reset
        (power_on\<lparr>wdt_counter := 0, wdt_expirations := 2, config_reg := 7\<rparr>)) = 8"
    by (simp add: assert_reset_def power_on_eq PORTA_PIN_RESET_def)
  from h1 h2 r o l e show ?thesis by (intro conjI)
qed



text \<open>
  Claim C3, as stated, fails: the expiration count is 8 bits wide and wraps. With the
  configuration written to 0 (what the driver's stop does) no action ever clears the
  count; ticks alone take it to 255 after 65279 ticks from power-on and back to 0 after
  65535, with nothing logged on the output lines in between.
\<close>

theorem C3_counterexample:
  "unat (wdt_expirations (ticks 65535 (write_txn [REG_CONFIG, 0] power_on)))
     < unat (wdt_expirations (ticks 65279 (write_txn [REG_CONFIG, 0] power_on)))
   \<and> pin_log (ticks 65535 (write_txn [REG_CONFIG, 0] power_on)) = []"
proof -
  let ?s = "write_txn [REG_CONFIG, 0] power_on"
  have cfg: "config_reg ?s = 0" by (simp add: config_write)
  have fz: "first_zero ?s = 255" by (simp add: config_write power_on_eq first_zero_def)
  have e: "wdt_expirations ?s = 0" by (simp add: config_write power_on_eq)
  have ex: "wdt_expirations (ticks n ?s) = of_nat ((n + 1) div 256)" for n
    using expirations_ticks [of n ?s] disabled_never_escalates [OF cfg]
    by (simp add: zero_crossings_closed fz e)
  have "pin_log (ticks 65535 ?s) = pin_log ?s" using cfg by (rule pin_log_ticks_disabled)
  then have l: "pin_log (ticks 65535 ?s) = []" by (simp add: config_write power_on_eq)
  have "wdt_expirations (ticks 65535 ?s) = 0" unfolding ex by simp
  moreover have "wdt_expirations (ticks 65279 ?s) = 255" unfolding ex by simp
  ultimately show ?thesis using l by simp
qed

text \<open>
  Claim C3, amended. Over \<open>n\<close> ticks none of which completes a reset or power-cycle
  pulse, the expiration count ends at its initial value plus the number of expiration
  events among them, modulo 256: every decrement-to-zero adds one, no other tick changes
  it. As long as that sum stays below 256, the count after any prefix of the run is at
  most the count at its end.
\<close>

theorem C3_expiration_count_grows_mod_256:
  assumes "\<forall>k<n. \<not> completes_escalation (ticks k s)"
  shows "wdt_expirations (ticks n s) = wdt_expirations s + of_nat (zero_crossings n s)
     \<and> unat (wdt_expirations (ticks n s)) =
         (unat (wdt_expirations s) + zero_crossings n s) mod 256
     \<and> (unat (wdt_expirations s) + zero_crossings n s < 256 \<longrightarrow>
          (\<forall>m\<le>n. unat (wdt_expirations (ticks m s)) \<le> unat (wdt_expirations (ticks n s))))"
proof -
  have at: "wdt_expirations (ticks m s) = wdt_expirations s + of_nat (zero_crossings m s)"
    if "m \<le> n" for m
    using assms that by (intro expirations_ticks) simp
  have u: "unat (wdt_expirations (ticks m s)) =
             (unat (wdt_expirations s) + zero_crossings m s) mod 256"
    if "m \<le> n" for m
    using at [OF that] by (simp add: unat_add_of_nat)
  have mono: "unat (wdt_expirations (ticks m s)) \<le> unat (wdt_expirations (ticks n s))"
    if small: "unat (wdt_expirations s) + zero_crossings n s < 256" and le: "m \<le> n" for m
  proof -
    have "zero_crossings m s \<le> zero_crossings n s" using le by (rule zero_crossings_mono)
    with small show ?thesis using u [OF le] u [of n] by simp
  qed
  from at [of n] u [of n] mono show ?thesis by simp
qed

theorem C3_expiration_count_grows_mod_256_witness:
  "wdt_expirations (ticks 1000 (write_txn [REG_CONFIG, 0] power_on)) = 3
   \<and> unat (wdt_expirations (ticks 1000 (write_txn [REG_CONFIG, 0] power_on))) = 3
   \<and> unat (wdt_expirations (ticks 300 (write_txn [REG_CONFIG, 0] power_on)))
       \<le> unat (wdt_expirations (ticks 1000 (write_txn [REG_CONFIG, 0] power_on)))"
proof -
  let ?s = "write_txn [REG_CONFIG, 0] power_on"
  have cfg: "config_reg ?s = 0" by (simp add: config_write)
  have h: "\<forall>k<1000. \<not> completes_escalation (ticks k ?s)"
    using disabled_never_escalates [OF cfg] by simp
  have fz: "first_zero ?s = 255" by (simp add: config_write power_on_eq first_zero_def)
  have e: "wdt_expirations ?s = 0" by (simp add: config_write power_on_eq)
  have z: "zero_crossings 1000 ?s = 3" by (simp add: zero_crossings_closed fz)
  note c = C3_expiration_count_grows_mod_256 [OF h]
  have p1: "wdt_expirations (ticks 1000 ?s) = 3"
    using c [THEN conjunct1] by (simp add: z e)
  have p2: "unat (wdt_expirations (ticks 1000 ?s)) = 3"
    unfolding p1 by simp
  have "unat (wdt_expirations ?s) + zero_crossings 1000 ?s < 256"
    by (simp add: z e)
  with c have "\<forall>m\<le>1000. unat (wdt_expirations (ticks m ?s))
                 \<le> unat (wdt_expirations (ticks 1000 ?s))"
    by blast
  then have p3: "unat (wdt_expirations (ticks 300 ?s)) \<le> unat (wdt_expirations (ticks 1000 ?s))"
    by (elim allE [where x = 300]) simp
  from p1 p2 p3 show ?thesis by (intro conjI)
qed

text \<open>
  From a state with the expiration count at 0 (as at power-on) and enable-alert set, no
  tick before the first decrement-to-zero logs anything or moves the alert line; the
  tick of the first decrement-to-zero logs exactly one call, the assertion of the alert;
  from then on the alert line is high after every number of ticks; and a refresh write
  after any number of ticks leaves it low.
\<close>

lemma alert_latched_from_normal:
  assumes "wdt_expirations s = 0" and "config_reg s AND CONFIG_ENABLE_ALERT \<noteq> 0"
  shows "(\<forall>n<first_zero s. pin_log (ticks n s) = pin_log s
                            \<and> alert_line (ticks n s) = alert_line s)
     \<and> pin_log (ticks (first_zero s) s) = pin_log s @ [Assert_alert]
     \<and> (\<forall>n\<ge>first_zero s. alert_line (ticks n s))
     \<and> (\<forall>n d rest. \<not> alert_line (write_txn (REG_WDT # d # rest) (ticks n s)))"
proof -
  have before: "pin_log (ticks n s) = pin_log s \<and> alert_line (ticks n s) = alert_line s"
    if "n < first_zero s" for n
    using ticks_before_zero [OF that] by (simp add: alert_line_def)
  have at: "ticks (first_zero s) s = assert_alert (s\<lparr>wdt_counter := 0, wdt_expirations := 1\<rparr>)"
    using assms by (rule first_expiration_alert)
  have log: "pin_log (ticks (first_zero s) s) = pin_log s @ [Assert_alert]"
    unfolding at by (simp add: assert_alert_def)
  have high: "alert_line (ticks (first_zero s) s)"
    unfolding at by (rule alert_line_assert_alert)
  have after: "alert_line (ticks n s)" if "first_zero s \<le> n" for n
  proof -
    from that obtain m where "n = first_zero s + m" by (auto simp: le_iff_add)
    then have "ticks n s = ticks m (ticks (first_zero s) s)" by (simp add: ticks_add)
    with high show ?thesis by (simp add: alert_line_ticks)
  qed
  from before log after refresh_write_alert_low show ?thesis by blast
qed

text \<open>
  Claim C4, at a concrete run. The run of ticks that follows a refresh does not start
  with the expiration count at 0 when the refresh came after an alert: the refresh
  leaves the count at 1 (claim C1). From power-on, 255 ticks and the refresh write of 5:
  enable-alert is set and the alert line is low. The next four ticks log nothing; the
  fifth is the first decrement-to-zero of the run, and it logs the power-cycle pulse and
  no alert assertion. The alert line is still low after it.
\<close>

theorem C4_no_alert_after_refresh:
  "config_reg (write_txn [REG_WDT, 5] (ticks 255 power_on)) AND CONFIG_ENABLE_ALERT \<noteq> 0
   \<and> \<not> alert_line (write_txn [REG_WDT, 5] (ticks 255 power_on))
   \<and> wdt_counter (ticks 4 (write_txn [REG_WDT, 5] (ticks 255 power_on))) = 1
   \<and> pin_log (ticks 4 (write_txn [REG_WDT, 5] (ticks 255 power_on))) =
       pin_log (write_txn [REG_WDT, 5] (ticks 255 power_on))
   \<and> wdt_counter (ticks 5 (write_txn [REG_WDT, 5] (ticks 255 power_on))) = 0
   \<and> pin_log (ticks 5 (write_txn [REG_WDT, 5] (ticks 255 power_on))) =
       pin_log (write_txn [REG_WDT, 5] (ticks 255 power_on))
         @ [Assert_powercycle, Delay_ms 50, Deassert_powercycle]
   \<and> \<not> alert_line (ticks 5 (write_txn [REG_WDT, 5] (ticks 255 power_on)))"
proof -
  let ?r = "write_txn [REG_WDT, 5] (ticks 255 power_on)"
  have r: "?r =
     \<lparr>wdt_counter = 5, wdt_expirations = 1, register_pointer = REG_WDT, config_reg = 6,
      PORTA_OUT = 0, PORTA_DIR = 200, sreg_i = True,
      wire_rx = [], wire_tx = [], pin_log = [Assert_alert, Deassert_alert]\<rparr>"
    by (simp add: refresh_write ticks_255_power_on PORTA_PIN_ALERT_def)
  have fz: "first_zero ?r = 5" unfolding r by (simp add: first_zero_def)
  have t4: "ticks 4 ?r = ?r\<lparr>wdt_counter := wdt_counter ?r - of_nat 4\<rparr>"
    by (rule ticks_before_zero) (simp add: fz)
  have t5: "ticks 5 ?r =
      escalation (?r\<lparr>wdt_counter := 0, wdt_expirations := wdt_expirations ?r + 1\<rparr>)"
    using ticks_first_zero [of ?r] unfolding fz .
  have a: "config_reg ?r AND CONFIG_ENABLE_ALERT \<noteq> 0"
    unfolding r by (simp add: CONFIG_ENABLE_ALERT_def)
  have b: "\<not> alert_line ?r" by (rule refresh_write_alert_low)
  have c: "wdt_counter (ticks 4 ?r) = 1 \<and> pin_log (ticks 4 ?r) = pin_log ?r"
    unfolding t4 unfolding r by simp
  have d: "wdt_counter (ticks 5 ?r) = 0
     \<and> pin_log (ticks 5 ?r) = pin_log ?r @ [Assert_powercycle, Delay_ms 50, Deassert_powercycle]
     \<and> \<not> alert_line (ticks 5 ?r)"
    unfolding t5 unfolding r
    by (simp add: escalation_def Let_def pin_defs const_defs alert_line_def)
  from a b c d show ?thesis by (intro conjI) simp_all
qed

end
